theory Spec2Isabelle
  imports Main "HOL-Library.Word"
begin

unbundle bit_operations_syntax

section \<open>LRNG fast entropy source: Jitter RNG (lrng_es_jent.c)\<close>

text \<open>
  A shallow embedding of \<^verbatim>\<open>src/lrng_es_jent.c\<close>. The module-level statics of the C file
  are the fields of one state record that every function takes and returns. The kernel
  services the file calls but does not define (the crypto RNG handle, \<^verbatim>\<open>kstrtobool\<close>,
  the entropy manager's helpers, the Kconfig constants) are the fields of a second record
  that every function takes as a parameter, so nothing is assumed about them.
  Each function is one sequential step: the atomic operations of the source are modelled
  by what they do when no other thread runs in between.
  The model is of the build with \<^verbatim>\<open>CONFIG_LRNG_JENT_ENTROPY_BLOCKS != 0\<close>, \<^verbatim>\<open>CONFIG_SYSFS\<close>
  and \<^verbatim>\<open>CONFIG_LRNG_RUNTIME_ES_CONFIG\<close>, in which the asynchronous code and the runtime
  toggle exist. Logging (\<^verbatim>\<open>pr_debug\<close> and the like) is left out.
\<close>

subsection \<open>Data model\<close>

type_synonym u8 = "8 word"
type_synonym u32 = "32 word"

text \<open>\<^verbatim>\<open>enum lrng_jent_async_state\<close>; the static array starts zeroed, that is, all
  \<^verbatim>\<open>buffer_empty\<close>.\<close>

datatype lrng_jent_async_state =
  buffer_empty | buffer_filling | buffer_filled | buffer_reading

text \<open>\<^verbatim>\<open>struct jent_entropy_es { uint8_t e[LRNG_DRNG_INIT_SEED_SIZE_BYTES]; uint32_t e_bits; }\<close>.
  The fields are \<open>es_e\<close> and \<open>es_e_bits\<close> here, since a record field is a global constant.\<close>

record jent_entropy_es =
  es_e :: "u8 list"
  es_e_bits :: u32

text \<open>The part of \<^verbatim>\<open>struct entropy_buf\<close> this file touches: \<^verbatim>\<open>eb->e[lrng_ext_es_jitter]\<close>
  and \<^verbatim>\<open>eb->e_bits[lrng_ext_es_jitter]\<close>.\<close>

record entropy_buf =
  eb_e :: "u8 list"
  eb_e_bits :: u32

text \<open>
  What the file uses and does not define. \<open>'r\<close> is the value of a
  \<^verbatim>\<open>struct crypto_rng *\<close> together with the generator behind it.
  \<open>crypto_rng_get_bytes h buf n\<close> is given the handle, the present contents of the
  destination and the byte count, and gives back the return code, the contents of the
  destination afterwards and the handle afterwards: the C function may write through the
  pointer whatever it returns.
\<close>

record 'r kernel =
  crypto_alloc_rng :: "'r"
  IS_ERR :: "'r \<Rightarrow> bool"
  PTR_ERR :: "'r \<Rightarrow> int"
  crypto_rng_get_bytes :: "'r \<Rightarrow> u8 list \<Rightarrow> nat \<Rightarrow> int \<times> u8 list \<times> 'r"
  kstrtobool :: "string \<Rightarrow> int \<times> bool"
  lrng_fast_noise_entropylevel :: "u32 \<Rightarrow> u32 \<Rightarrow> u32"
  lrng_get_seed_entropy_osr :: "bool \<Rightarrow> u32"
  lrng_security_strength :: "u32"
  fips_enabled :: "bool"
  CONFIG_LRNG_JENT_ENTROPY_RATE :: "u32"
  CONFIG_LRNG_JENT_ENTROPY_BLOCKS :: "nat"
  LRNG_DRNG_SECURITY_STRENGTH_BITS :: "u32"
  LRNG_DRNG_INIT_SEED_SIZE_BYTES :: "nat"

text \<open>
  The statics of the file. \<open>idx\<close> is the function-local \<^verbatim>\<open>static atomic_t idx\<close> of
  \<^verbatim>\<open>lrng_jent_async_get\<close>, a 32-bit counter that wraps. The last three fields record
  calls that leave the file: how often \<^verbatim>\<open>crypto_rng_get_bytes\<close>,
  \<^verbatim>\<open>schedule_work(&lrng_jent_async_work)\<close> and \<^verbatim>\<open>lrng_force_fully_seeded\<close> were called.
\<close>

record 'r jent_state =
  jent_entropy :: "u32"
  lrng_jent_initialized :: "bool"
  jent :: "'r"
  lrng_jent_async :: "jent_entropy_es list"
  lrng_jent_async_set :: "lrng_jent_async_state list"
  lrng_es_jent_async_enabled :: "bool"
  idx :: "u32"
  rng_calls :: "nat"
  work_scheduled :: "nat"
  fully_seeded_forced :: "nat"

subsection \<open>Primitives\<close>

text \<open>\<^verbatim>\<open>atomic_cmpxchg(&v[i], old, new)\<close>: returns the value found, stores \<open>new\<close> if it
  was \<open>old\<close>.\<close>

definition atomic_cmpxchg ::
  "lrng_jent_async_state list \<Rightarrow> nat \<Rightarrow> lrng_jent_async_state \<Rightarrow> lrng_jent_async_state
   \<Rightarrow> lrng_jent_async_state \<times> lrng_jent_async_state list" where
  "atomic_cmpxchg v i old new = (v ! i, if v ! i = old then v[i := new] else v)"

text \<open>\<^verbatim>\<open>memzero_explicit(&slot, sizeof(struct jent_entropy_es))\<close>.\<close>

definition memzero_es :: "jent_entropy_es \<Rightarrow> jent_entropy_es" where
  "memzero_es x = \<lparr>es_e = replicate (length (es_e x)) 0, es_e_bits = 0\<rparr>"

text \<open>\<^verbatim>\<open>memcpy(dst, src, n)\<close> on byte arrays.\<close>

definition memcpy :: "u8 list \<Rightarrow> u8 list \<Rightarrow> nat \<Rightarrow> u8 list" where
  "memcpy dst src n = take n src @ drop n dst"

subsection \<open>Entropy estimate and the direct path\<close>

definition lrng_jent_entropylevel :: "'r kernel \<Rightarrow> 'r jent_state \<Rightarrow> u32 \<Rightarrow> u32" where
  "lrng_jent_entropylevel K s requested_bits =
     lrng_fast_noise_entropylevel K
       (if lrng_jent_initialized s then jent_entropy s else 0) requested_bits"

definition lrng_jent_poolsize :: "'r kernel \<Rightarrow> 'r jent_state \<Rightarrow> u32" where
  "lrng_jent_poolsize K s = lrng_jent_entropylevel K s (lrng_security_strength K)"

text \<open>
  \<^verbatim>\<open>__lrng_jent_get(u8 *e, u32 *e_bits, u32 requested_bits)\<close>, named without the leading
  underscores. The two out parameters are returned: the destination buffer as it is after
  the call, and the value stored in \<^verbatim>\<open>*e_bits\<close> (every path stores one).
\<close>

definition lrng_jent_get_impl ::
  "'r kernel \<Rightarrow> 'r jent_state \<Rightarrow> u8 list \<Rightarrow> u32 \<Rightarrow> 'r jent_state \<times> u8 list \<times> u32" where
  "lrng_jent_get_impl K s e requested_bits =
     (let ent_bits = lrng_jent_entropylevel K s requested_bits in
      if \<not> lrng_jent_initialized s then (s, e, 0)
      else
        (case crypto_rng_get_bytes K (jent s) e (unat (drop_bit 3 requested_bits)) of
           (ret, e', h') \<Rightarrow>
             (let s' = s\<lparr>jent := h', rng_calls := Suc (rng_calls s)\<rparr> in
              if ret \<noteq> 0 then (s', e', 0) else (s', e', ent_bits))))"

definition lrng_jent_get ::
  "'r kernel \<Rightarrow> 'r jent_state \<Rightarrow> entropy_buf \<Rightarrow> u32 \<Rightarrow> 'r jent_state \<times> entropy_buf" where
  "lrng_jent_get K s eb requested_bits =
     (case lrng_jent_get_impl K s (eb_e eb) requested_bits of
        (s', e', bits) \<Rightarrow> (s', eb\<lparr>eb_e := e', eb_e_bits := bits\<rparr>))"

subsection \<open>The background filler\<close>

text \<open>One iteration of the loop of \<^verbatim>\<open>lrng_jent_async_monitor\<close>, for slot \<open>i\<close>.
  \<^verbatim>\<open>schedule()\<close> yields the processor and changes nothing here.\<close>

definition lrng_jent_async_monitor_slot ::
  "'r kernel \<Rightarrow> u32 \<Rightarrow> nat \<Rightarrow> 'r jent_state \<Rightarrow> 'r jent_state" where
  "lrng_jent_async_monitor_slot K requested_bits i s =
     (case atomic_cmpxchg (lrng_jent_async_set s) i buffer_empty buffer_filling of
        (found, set1) \<Rightarrow>
          if found \<noteq> buffer_empty then s
          else
            (let s1 = s\<lparr>lrng_jent_async_set := set1\<rparr> in
             case lrng_jent_get_impl K s1 (es_e (lrng_jent_async s1 ! i)) requested_bits of
               (s2, e', bits) \<Rightarrow>
                 s2\<lparr>lrng_jent_async :=
                      (lrng_jent_async s2)[i := \<lparr>es_e = e', es_e_bits = bits\<rparr>],
                    lrng_jent_async_set := (lrng_jent_async_set s2)[i := buffer_filled]\<rparr>))"

definition lrng_jent_async_monitor :: "'r kernel \<Rightarrow> 'r jent_state \<Rightarrow> 'r jent_state" where
  "lrng_jent_async_monitor K s =
     (let requested_bits = lrng_get_seed_entropy_osr K True in
      fold (lrng_jent_async_monitor_slot K requested_bits)
           [0 ..< CONFIG_LRNG_JENT_ENTROPY_BLOCKS K] s)"

definition lrng_jent_async_monitor_schedule :: "'r jent_state \<Rightarrow> 'r jent_state" where
  "lrng_jent_async_monitor_schedule s =
     (if lrng_es_jent_async_enabled s then s\<lparr>work_scheduled := Suc (work_scheduled s)\<rparr>
      else s)"

definition lrng_jent_async_fini :: "'r jent_state \<Rightarrow> 'r jent_state" where
  "lrng_jent_async_fini s = s\<lparr>lrng_jent_async := map memzero_es (lrng_jent_async s)\<rparr>"

subsection \<open>The pool path and the dispatcher\<close>

definition LRNG_JENT_ENTROPY_BLOCKS_MASK :: "'r kernel \<Rightarrow> u32" where
  "LRNG_JENT_ENTROPY_BLOCKS_MASK K = word_of_nat (CONFIG_LRNG_JENT_ENTROPY_BLOCKS K) - 1"

definition lrng_jent_async_get ::
  "'r kernel \<Rightarrow> 'r jent_state \<Rightarrow> entropy_buf \<Rightarrow> u32 \<Rightarrow> 'r jent_state \<times> entropy_buf" where
  "lrng_jent_async_get K s eb requested_bits =
     (if \<not> lrng_jent_initialized s then (s, eb\<lparr>eb_e_bits := 0\<rparr>)
      else
        (let s1 = s\<lparr>idx := idx s + 1\<rparr>;
             slot = unat (idx s1 AND LRNG_JENT_ENTROPY_BLOCKS_MASK K) in
         case atomic_cmpxchg (lrng_jent_async_set s1) slot buffer_filled buffer_reading of
           (found, set1) \<Rightarrow>
             if found \<noteq> buffer_filled then
               (case lrng_jent_get K s1 eb requested_bits of
                  (s2, eb2) \<Rightarrow> (lrng_jent_async_monitor_schedule s2, eb2))
             else
               (let s2 = s1\<lparr>lrng_jent_async_set := set1\<rparr>;
                    eb2 = eb\<lparr>eb_e := memcpy (eb_e eb) (es_e (lrng_jent_async s2 ! slot))
                                         (LRNG_DRNG_INIT_SEED_SIZE_BYTES K),
                             eb_e_bits := es_e_bits (lrng_jent_async s2 ! slot)\<rparr>;
                    s3 = s2\<lparr>lrng_jent_async :=
                              (lrng_jent_async s2)[slot := memzero_es (lrng_jent_async s2 ! slot)]\<rparr>;
                    s4 = s3\<lparr>lrng_jent_async_set := (lrng_jent_async_set s3)[slot := buffer_empty]\<rparr>
                in
                  if slot mod (CONFIG_LRNG_JENT_ENTROPY_BLOCKS K div 4) = 0 \<and> slot \<noteq> 0
                  then (lrng_jent_async_monitor_schedule s4, eb2)
                  else (s4, eb2))))"

definition lrng_jent_get_check ::
  "'r kernel \<Rightarrow> 'r jent_state \<Rightarrow> entropy_buf \<Rightarrow> u32 \<Rightarrow> 'r jent_state \<times> entropy_buf" where
  "lrng_jent_get_check K s eb requested_bits =
     (if lrng_es_jent_async_enabled s \<and> requested_bits = lrng_get_seed_entropy_osr K True
      then lrng_jent_async_get K s eb requested_bits
      else lrng_jent_get K s eb requested_bits)"

subsection \<open>Initialisation and the runtime toggle\<close>

definition lrng_jent_async_init :: "'r kernel \<Rightarrow> 'r jent_state \<Rightarrow> 'r jent_state" where
  "lrng_jent_async_init K s =
     (if \<not> lrng_es_jent_async_enabled s then s
      else s\<lparr>lrng_jent_async_set :=
               fold (\<lambda>i v. v[i := buffer_empty]) [0 ..< CONFIG_LRNG_JENT_ENTROPY_BLOCKS K]
                    (lrng_jent_async_set s)\<rparr>)"

text \<open>\<^verbatim>\<open>INIT_WORK\<close> binds \<^verbatim>\<open>lrng_jent_async_monitor\<close> to the work item and schedules
  nothing.\<close>

definition lrng_jent_async_init_complete :: "'r kernel \<Rightarrow> 'r jent_state \<Rightarrow> 'r jent_state" where
  "lrng_jent_async_init_complete K s = lrng_jent_async_init K s"

text \<open>\<^verbatim>\<open>lrng_jent_async_sysfs_set(val, kp)\<close>; \<open>None\<close> is the null pointer.\<close>

definition lrng_jent_async_sysfs_set ::
  "'r kernel \<Rightarrow> string option \<Rightarrow> 'r jent_state \<Rightarrow> int \<times> 'r jent_state" where
  "lrng_jent_async_sysfs_set K val s =
     (let val1 = (case val of None \<Rightarrow> ''1'' | Some v \<Rightarrow> v) in
      case kstrtobool K val1 of
        (ret, setting) \<Rightarrow>
          if ret \<noteq> 0 then (ret, s)
          else if setting then
            (if \<not> lrng_es_jent_async_enabled s then
               (0, lrng_jent_async_monitor_schedule
                     (lrng_jent_async_init K (s\<lparr>lrng_es_jent_async_enabled := True\<rparr>)))
             else (0, s))
          else
            (if lrng_es_jent_async_enabled s then
               (0, lrng_jent_async_fini (s\<lparr>lrng_es_jent_async_enabled := False\<rparr>))
             else (0, s)))"

definition lrng_jent_initialize :: "'r kernel \<Rightarrow> 'r jent_state \<Rightarrow> int \<times> 'r jent_state" where
  "lrng_jent_initialize K s =
     (let s1 = s\<lparr>jent := crypto_alloc_rng K\<rparr> in
      if IS_ERR K (jent s1) then (PTR_ERR K (jent s1), s1)
      else
        (let s2 = lrng_jent_async_init_complete K s1;
             s3 = s2\<lparr>lrng_jent_initialized := True\<rparr>;
             s4 = (if fips_enabled K \<and> CONFIG_LRNG_JENT_ENTROPY_RATE K > 0 \<and>
                      jent_entropy s3 = CONFIG_LRNG_JENT_ENTROPY_RATE K
                   then s3\<lparr>jent_entropy := LRNG_DRNG_SECURITY_STRENGTH_BITS K\<rparr> else s3);
             s5 = (if jent_entropy s4 \<noteq> 0
                   then s4\<lparr>fully_seeded_forced := Suc (fully_seeded_forced s4)\<rparr> else s4)
         in (0, s5)))"

subsection \<open>Build-time checks and derived notions\<close>

text \<open>The two \<^verbatim>\<open>BUILD_BUG_ON\<close> checks of \<^verbatim>\<open>lrng_jent_async_get\<close>: the number of blocks is
  a power of two (\<^verbatim>\<open>(BLOCKS & MASK) == 0\<close>) and at least 4. The constant is a C
  \<^verbatim>\<open>int\<close>, hence below \<open>2 ^ 31\<close>.\<close>

definition build_checks :: "'r kernel \<Rightarrow> bool" where
  "build_checks K =
     (CONFIG_LRNG_JENT_ENTROPY_BLOCKS K AND (CONFIG_LRNG_JENT_ENTROPY_BLOCKS K - 1) = 0 \<and>
      \<not> CONFIG_LRNG_JENT_ENTROPY_BLOCKS K < 4 \<and>
      CONFIG_LRNG_JENT_ENTROPY_BLOCKS K < 2 ^ 31)"

text \<open>The two static arrays have \<^verbatim>\<open>CONFIG_LRNG_JENT_ENTROPY_BLOCKS\<close> entries, and every
  byte buffer has \<^verbatim>\<open>LRNG_DRNG_INIT_SEED_SIZE_BYTES\<close> bytes: what the C declarations fix
  and lists do not.\<close>

definition arrays_declared :: "'r kernel \<Rightarrow> 'r jent_state \<Rightarrow> bool" where
  "arrays_declared K s =
     (length (lrng_jent_async s) = CONFIG_LRNG_JENT_ENTROPY_BLOCKS K \<and>
      length (lrng_jent_async_set s) = CONFIG_LRNG_JENT_ENTROPY_BLOCKS K \<and>
      list_all (\<lambda>x. length (es_e x) = LRNG_DRNG_INIT_SEED_SIZE_BYTES K) (lrng_jent_async s))"

text \<open>The slot that the \<open>j\<close>-th next pool-path call computes from the cursor (\<open>j = 0\<close> for
  the next call).\<close>

definition slot_at :: "'r kernel \<Rightarrow> 'r jent_state \<Rightarrow> nat \<Rightarrow> nat" where
  "slot_at K s j = unat ((idx s + 1 + word_of_nat j) AND LRNG_JENT_ENTROPY_BLOCKS_MASK K)"

text \<open>A run of calls of \<^verbatim>\<open>lrng_jent_get_check\<close>, one per caller buffer, each with the
  same request size; the results are collected in call order.\<close>

fun lrng_jent_get_check_seq ::
  "'r kernel \<Rightarrow> 'r jent_state \<Rightarrow> entropy_buf list \<Rightarrow> u32 \<Rightarrow> 'r jent_state \<times> entropy_buf list" where
  "lrng_jent_get_check_seq K s [] requested_bits = (s, [])"
| "lrng_jent_get_check_seq K s (eb # ebs) requested_bits =
     (case lrng_jent_get_check K s eb requested_bits of
        (s1, eb1) \<Rightarrow>
          (case lrng_jent_get_check_seq K s1 ebs requested_bits of
             (s2, outs) \<Rightarrow> (s2, eb1 # outs)))"

text \<open>A byte buffer is wiped when every byte is zero.\<close>

definition all_zero :: "u8 list \<Rightarrow> bool" where
  "all_zero bs = list_all (\<lambda>b. b = 0) bs"

subsection \<open>A concrete configuration\<close>

text \<open>
  An instance of the kernel services for evaluating the functions: 4 blocks (the least the
  build accepts), 48-byte seed buffers, a standard request of 384 bits, a default rate of
  16. The handle is a number that selects how the generator behaves: 0 is an error
  pointer; an odd handle \<open>p\<close> delivers bytes of value \<open>p\<close> and moves on to \<open>p + 2\<close>;
  2 fails and writes nothing; any other even handle fails after it has written the first
  32-byte block.
\<close>

definition kernel_ex :: "nat \<Rightarrow> nat kernel" where
  "kernel_ex h =
     \<lparr>crypto_alloc_rng = h,
      IS_ERR = (\<lambda>p. p = 0),
      PTR_ERR = (\<lambda>p. - 2),
      crypto_rng_get_bytes =
        (\<lambda>p buf n. if odd p then (0, replicate n (word_of_nat p) @ drop n buf, p + 2)
                   else if p = 2 then (- 11, buf, p)
                   else (- 11, replicate (min n 32) 165 @ drop (min n 32) buf, p)),
      kstrtobool =
        (\<lambda>v. if v = ''1'' then (0, True) else if v = ''0'' then (0, False)
              else (- 22, False)),
      lrng_fast_noise_entropylevel = (\<lambda>rate req. min req (rate * req div 256)),
      lrng_get_seed_entropy_osr = (\<lambda>fully_seeded. 384),
      lrng_security_strength = 256,
      fips_enabled = False,
      CONFIG_LRNG_JENT_ENTROPY_RATE = 16,
      CONFIG_LRNG_JENT_ENTROPY_BLOCKS = 4,
      LRNG_DRNG_SECURITY_STRENGTH_BITS = 256,
      LRNG_DRNG_INIT_SEED_SIZE_BYTES = 48\<rparr>"

text \<open>The statics as the C initialisers leave them: nothing initialised, every slot
  zeroed and \<^verbatim>\<open>buffer_empty\<close>, asynchronous collection enabled, the cursor at \<open>-1\<close>.\<close>

definition state_boot :: "nat jent_state" where
  "state_boot =
     \<lparr>jent_entropy = 16,
      lrng_jent_initialized = False,
      jent = 0,
      lrng_jent_async =
        [\<lparr>es_e = replicate 48 0, es_e_bits = 0\<rparr>, \<lparr>es_e = replicate 48 0, es_e_bits = 0\<rparr>,
         \<lparr>es_e = replicate 48 0, es_e_bits = 0\<rparr>, \<lparr>es_e = replicate 48 0, es_e_bits = 0\<rparr>],
      lrng_jent_async_set = [buffer_empty, buffer_empty, buffer_empty, buffer_empty],
      lrng_es_jent_async_enabled = True,
      idx = - 1,
      rng_calls = 0,
      work_scheduled = 0,
      fully_seeded_forced = 0\<rparr>"

text \<open>The state after a successful \<^verbatim>\<open>lrng_jent_initialize\<close> with generator \<open>h\<close>, and
  after one pass of the filler on top of that.\<close>

definition state_ready :: "nat \<Rightarrow> nat jent_state" where
  "state_ready h = snd (lrng_jent_initialize (kernel_ex h) state_boot)"

definition state_full :: "nat \<Rightarrow> nat jent_state" where
  "state_full h = lrng_jent_async_monitor (kernel_ex h) (state_ready h)"

text \<open>A full pool of 8 slots with the cursor at \<open>c\<close>, for a build with 8 blocks.\<close>

definition state_full8 :: "u32 \<Rightarrow> nat jent_state" where
  "state_full8 c =
     \<lparr>jent_entropy = 16, lrng_jent_initialized = True, jent = 17,
      lrng_jent_async = replicate 8 \<lparr>es_e = replicate 48 9, es_e_bits = 24\<rparr>,
      lrng_jent_async_set = replicate 8 buffer_filled,
      lrng_es_jent_async_enabled = True, idx = c, rng_calls = 8, work_scheduled = 0,
      fully_seeded_forced = 1\<rparr>"

text \<open>A caller's buffer.\<close>

definition eb_ex :: entropy_buf where
  "eb_ex = \<lparr>eb_e = replicate 48 7, eb_e_bits = 99\<rparr>"

section \<open>Evaluation of the concrete states\<close>

lemma upt4: "[0..<4] = [0, 1, 2, 3]"
  by (simp add: upt_rec)

lemma list_update_Cons_numeral:
  "(x # xs)[numeral n := y] = x # xs[pred_numeral n := y]"
  by (simp add: numeral_eq_Suc)

lemma state_ready_eval:
  "state_ready h =
     (if h = 0 then state_boot\<lparr>jent := 0\<rparr>
      else state_boot\<lparr>jent := h, lrng_jent_initialized := True, fully_seeded_forced := 1\<rparr>)"
  by (simp add: state_ready_def lrng_jent_initialize_def kernel_ex_def state_boot_def Let_def
      lrng_jent_async_init_complete_def lrng_jent_async_init_def upt4 list_update_Cons_numeral)

text \<open>With the generator that delivers, one pass of the filler fills the four slots with
  bytes 1, 3, 5 and 7 and credits 24 bits each.\<close>

lemma state_full_1:
  "state_full (Suc 0) =
     \<lparr>jent_entropy = 16, lrng_jent_initialized = True, jent = 9,
      lrng_jent_async =
        [\<lparr>es_e = replicate 48 1, es_e_bits = 24\<rparr>, \<lparr>es_e = replicate 48 3, es_e_bits = 24\<rparr>,
         \<lparr>es_e = replicate 48 5, es_e_bits = 24\<rparr>, \<lparr>es_e = replicate 48 7, es_e_bits = 24\<rparr>],
      lrng_jent_async_set = [buffer_filled, buffer_filled, buffer_filled, buffer_filled],
      lrng_es_jent_async_enabled = True, idx = - 1, rng_calls = 4, work_scheduled = 0,
      fully_seeded_forced = 1\<rparr>"
  apply (simp add: state_full_def state_ready_eval lrng_jent_async_monitor_def kernel_ex_def
      upt4 Let_def)
  apply (simp add: lrng_jent_async_monitor_slot_def lrng_jent_get_impl_def atomic_cmpxchg_def
      lrng_jent_entropylevel_def state_boot_def Let_def list_update_Cons_numeral drop_bit_eq_div)
  done

text \<open>With the generator that fails, the pass still marks the four slots filled; they
  hold zero bytes and zero credited bits.\<close>

lemma state_full_2:
  "state_full 2 =
     \<lparr>jent_entropy = 16, lrng_jent_initialized = True, jent = 2,
      lrng_jent_async =
        [\<lparr>es_e = replicate 48 0, es_e_bits = 0\<rparr>, \<lparr>es_e = replicate 48 0, es_e_bits = 0\<rparr>,
         \<lparr>es_e = replicate 48 0, es_e_bits = 0\<rparr>, \<lparr>es_e = replicate 48 0, es_e_bits = 0\<rparr>],
      lrng_jent_async_set = [buffer_filled, buffer_filled, buffer_filled, buffer_filled],
      lrng_es_jent_async_enabled = True, idx = - 1, rng_calls = 4, work_scheduled = 0,
      fully_seeded_forced = 1\<rparr>"
  apply (simp add: state_full_def state_ready_eval lrng_jent_async_monitor_def kernel_ex_def
      upt4 Let_def)
  apply (simp add: lrng_jent_async_monitor_slot_def lrng_jent_get_impl_def atomic_cmpxchg_def
      lrng_jent_entropylevel_def state_boot_def Let_def list_update_Cons_numeral drop_bit_eq_div)
  done

lemma partial_block_differs: "replicate 32 (165 :: u8) @ replicate 16 7 \<noteq> replicate 48 7"
proof
  assume "replicate 32 (165 :: u8) @ replicate 16 7 = replicate 48 7"
  then have "(replicate 32 (165 :: u8) @ replicate 16 7) ! 0 = replicate 48 (7 :: u8) ! 0"
    by simp
  then show False by (simp add: nth_append)
qed

section \<open>Frame of the direct path\<close>

lemma get_impl_frame:
  "lrng_jent_async (fst (lrng_jent_get_impl K s e r)) = lrng_jent_async s"
  "lrng_jent_async_set (fst (lrng_jent_get_impl K s e r)) = lrng_jent_async_set s"
  "idx (fst (lrng_jent_get_impl K s e r)) = idx s"
  "work_scheduled (fst (lrng_jent_get_impl K s e r)) = work_scheduled s"
  "lrng_es_jent_async_enabled (fst (lrng_jent_get_impl K s e r)) = lrng_es_jent_async_enabled s"
  "lrng_jent_initialized (fst (lrng_jent_get_impl K s e r)) = lrng_jent_initialized s"
  "jent_entropy (fst (lrng_jent_get_impl K s e r)) = jent_entropy s"
  by (simp_all add: lrng_jent_get_impl_def Let_def split: prod.splits)

lemma get_frame:
  "lrng_jent_async (fst (lrng_jent_get K s eb r)) = lrng_jent_async s"
  "lrng_jent_async_set (fst (lrng_jent_get K s eb r)) = lrng_jent_async_set s"
  "idx (fst (lrng_jent_get K s eb r)) = idx s"
  "work_scheduled (fst (lrng_jent_get K s eb r)) = work_scheduled s"
  "lrng_es_jent_async_enabled (fst (lrng_jent_get K s eb r)) = lrng_es_jent_async_enabled s"
  "lrng_jent_initialized (fst (lrng_jent_get K s eb r)) = lrng_jent_initialized s"
  by (simp_all add: lrng_jent_get_def lrng_jent_get_impl_def Let_def split: prod.splits)

section \<open>The dispatcher\<close>

text \<open>
  C3. \<^verbatim>\<open>lrng_jent_get_check\<close> takes the pool path exactly when asynchronous collection is
  enabled and the request has the standard oversampled size; otherwise it takes the direct
  path. The direct path leaves the slot buffers, the slot states and the cursor as they
  were and schedules no work.
\<close>

theorem get_check_dispatch:
  "lrng_jent_get_check K s eb requested_bits =
     (if lrng_es_jent_async_enabled s \<and> requested_bits = lrng_get_seed_entropy_osr K True
      then lrng_jent_async_get K s eb requested_bits
      else lrng_jent_get K s eb requested_bits) \<and>
   lrng_jent_async (fst (lrng_jent_get K s eb requested_bits)) = lrng_jent_async s \<and>
   lrng_jent_async_set (fst (lrng_jent_get K s eb requested_bits)) = lrng_jent_async_set s \<and>
   idx (fst (lrng_jent_get K s eb requested_bits)) = idx s \<and>
   work_scheduled (fst (lrng_jent_get K s eb requested_bits)) = work_scheduled s"
  by (simp add: lrng_jent_get_check_def get_frame)

text \<open>The scenario of the specification: a request of 256 bits, not the standard 384, while
  asynchronous collection is enabled and the pool is full.\<close>

theorem get_check_dispatch_witness:
  "lrng_es_jent_async_enabled (state_full 1) \<and>
   (256 :: u32) \<noteq> lrng_get_seed_entropy_osr (kernel_ex 1) True \<and>
   lrng_jent_get_check (kernel_ex 1) (state_full 1) eb_ex 256 =
     lrng_jent_get (kernel_ex 1) (state_full 1) eb_ex 256 \<and>
   lrng_jent_async (fst (lrng_jent_get_check (kernel_ex 1) (state_full 1) eb_ex 256)) =
     lrng_jent_async (state_full 1) \<and>
   lrng_jent_async_set (fst (lrng_jent_get_check (kernel_ex 1) (state_full 1) eb_ex 256)) =
     lrng_jent_async_set (state_full 1) \<and>
   idx (fst (lrng_jent_get_check (kernel_ex 1) (state_full 1) eb_ex 256)) = idx (state_full 1)"
  using get_check_dispatch [of "kernel_ex 1" "state_full 1" eb_ex 256]
  by (simp add: state_full_1 kernel_ex_def)

section \<open>Calls before initialisation\<close>

text \<open>
  C5. A call of \<^verbatim>\<open>lrng_jent_get_check\<close> while \<^verbatim>\<open>lrng_jent_initialized\<close> is false, on
  either path, stores 0 credited bits and changes nothing else: in particular the noise
  source is not called and its handle is not touched.
\<close>

theorem get_check_uninitialized:
  assumes "\<not> lrng_jent_initialized s"
  shows "lrng_jent_get_check K s eb requested_bits = (s, eb\<lparr>eb_e_bits := 0\<rparr>) \<and>
         eb_e_bits (snd (lrng_jent_get_check K s eb requested_bits)) = 0 \<and>
         rng_calls (fst (lrng_jent_get_check K s eb requested_bits)) = rng_calls s \<and>
         jent (fst (lrng_jent_get_check K s eb requested_bits)) = jent s"
  using assms
  by (auto simp: lrng_jent_get_check_def lrng_jent_get_def lrng_jent_get_impl_def
      lrng_jent_async_get_def Let_def split: prod.splits)

theorem get_check_uninitialized_witness:
  "\<not> lrng_jent_initialized state_boot \<and>
   lrng_jent_get_check (kernel_ex 1) state_boot eb_ex 384 = (state_boot, eb_ex\<lparr>eb_e_bits := 0\<rparr>) \<and>
   lrng_jent_get_check (kernel_ex 1) state_boot eb_ex 256 = (state_boot, eb_ex\<lparr>eb_e_bits := 0\<rparr>)"
  using get_check_uninitialized [of state_boot "kernel_ex 1" eb_ex 384]
    get_check_uninitialized [of state_boot "kernel_ex 1" eb_ex 256]
  by (simp add: state_boot_def)

section \<open>Initialisation\<close>

text \<open>
  C6, as amended. An initialisation that obtains the generator forces \<^verbatim>\<open>jent_entropy\<close> to
  \<^verbatim>\<open>LRNG_DRNG_SECURITY_STRENGTH_BITS\<close> when \<^verbatim>\<open>fips_enabled\<close> is set, the configured default
  rate is above zero and the rate still equals that default. Under any other combination
  of these three conditions, and in an initialisation that fails to obtain the generator,
  the rate is what it was.
\<close>

theorem initialize_fips_rate:
  "jent_entropy (snd (lrng_jent_initialize K s)) =
     (if \<not> IS_ERR K (crypto_alloc_rng K) \<and>
         fips_enabled K \<and> CONFIG_LRNG_JENT_ENTROPY_RATE K > 0 \<and>
         jent_entropy s = CONFIG_LRNG_JENT_ENTROPY_RATE K
      then LRNG_DRNG_SECURITY_STRENGTH_BITS K else jent_entropy s)"
  by (auto simp: lrng_jent_initialize_def lrng_jent_async_init_complete_def
      lrng_jent_async_init_def Let_def)

text \<open>In FIPS mode the default rate 16 becomes 256; without FIPS mode it stays 16; a rate
  of 32 given on the command line stays 32 in FIPS mode.\<close>

theorem initialize_fips_rate_witness:
  "\<not> IS_ERR ((kernel_ex 1)\<lparr>fips_enabled := True\<rparr>)
        (crypto_alloc_rng ((kernel_ex 1)\<lparr>fips_enabled := True\<rparr>)) \<and>
   jent_entropy state_boot = 16 \<and>
   jent_entropy (snd (lrng_jent_initialize ((kernel_ex 1)\<lparr>fips_enabled := True\<rparr>) state_boot)) = 256 \<and>
   jent_entropy (snd (lrng_jent_initialize (kernel_ex 1) state_boot)) = 16 \<and>
   jent_entropy (snd (lrng_jent_initialize ((kernel_ex 1)\<lparr>fips_enabled := True\<rparr>)
                        (state_boot\<lparr>jent_entropy := 32\<rparr>))) = 32"
  using initialize_fips_rate [of "(kernel_ex 1)\<lparr>fips_enabled := True\<rparr>" state_boot]
    initialize_fips_rate [of "kernel_ex 1" state_boot]
    initialize_fips_rate [of "(kernel_ex 1)\<lparr>fips_enabled := True\<rparr>"
      "state_boot\<lparr>jent_entropy := 32\<rparr>"]
  by (simp add: kernel_ex_def state_boot_def)

text \<open>The claim as written fails when the generator cannot be allocated: in FIPS mode, with
  the default rate 16 above zero and the rate still at that default, the call returns at
  the allocation test and the rate stays 16, not 256.\<close>

theorem initialize_fips_rate_counterexample:
  "IS_ERR ((kernel_ex 0)\<lparr>fips_enabled := True\<rparr>)
     (crypto_alloc_rng ((kernel_ex 0)\<lparr>fips_enabled := True\<rparr>)) \<and>
   fips_enabled ((kernel_ex 0)\<lparr>fips_enabled := True\<rparr>) \<and>
   0 < CONFIG_LRNG_JENT_ENTROPY_RATE ((kernel_ex 0)\<lparr>fips_enabled := True\<rparr>) \<and>
   jent_entropy state_boot = CONFIG_LRNG_JENT_ENTROPY_RATE ((kernel_ex 0)\<lparr>fips_enabled := True\<rparr>) \<and>
   fst (lrng_jent_initialize ((kernel_ex 0)\<lparr>fips_enabled := True\<rparr>) state_boot) = - 2 \<and>
   jent_entropy (snd (lrng_jent_initialize ((kernel_ex 0)\<lparr>fips_enabled := True\<rparr>) state_boot)) = 16 \<and>
   jent_entropy (snd (lrng_jent_initialize ((kernel_ex 0)\<lparr>fips_enabled := True\<rparr>) state_boot)) \<noteq>
     LRNG_DRNG_SECURITY_STRENGTH_BITS ((kernel_ex 0)\<lparr>fips_enabled := True\<rparr>)"
  by (simp add: kernel_ex_def state_boot_def lrng_jent_initialize_def)

section \<open>The runtime toggle\<close>

text \<open>
  C10. Writing to the toggle the value it already holds leaves the whole state as it was:
  no slot state is reset, no work is scheduled, nothing is wiped. The same holds when the
  written string does not parse. The state changes only on a change of the flag.
\<close>

theorem sysfs_set_same_value_noop:
  assumes "fst (kstrtobool K (case val of None \<Rightarrow> ''1'' | Some v \<Rightarrow> v)) \<noteq> 0 \<or>
           snd (kstrtobool K (case val of None \<Rightarrow> ''1'' | Some v \<Rightarrow> v)) =
             lrng_es_jent_async_enabled s"
  shows "snd (lrng_jent_async_sysfs_set K val s) = s \<and>
         fst (lrng_jent_async_sysfs_set K val s) =
           fst (kstrtobool K (case val of None \<Rightarrow> ''1'' | Some v \<Rightarrow> v))"
  using assms by (auto simp: lrng_jent_async_sysfs_set_def Let_def split: prod.splits)

theorem sysfs_set_same_value_noop_witness:
  "snd (kstrtobool (kernel_ex 1) ''1'') = lrng_es_jent_async_enabled (state_full 1) \<and>
   lrng_jent_async_sysfs_set (kernel_ex 1) (Some ''1'') (state_full 1) = (0, state_full 1) \<and>
   snd (kstrtobool (kernel_ex 1) ''0'') =
     lrng_es_jent_async_enabled ((state_full 1)\<lparr>lrng_es_jent_async_enabled := False\<rparr>) \<and>
   lrng_jent_async_sysfs_set (kernel_ex 1) (Some ''0'')
       ((state_full 1)\<lparr>lrng_es_jent_async_enabled := False\<rparr>) =
     (0, (state_full 1)\<lparr>lrng_es_jent_async_enabled := False\<rparr>)"
  using sysfs_set_same_value_noop [of "kernel_ex 1" "Some ''1''" "state_full 1"]
    sysfs_set_same_value_noop [of "kernel_ex 1" "Some ''0''"
      "(state_full 1)\<lparr>lrng_es_jent_async_enabled := False\<rparr>"]
  by (simp add: state_full_1 kernel_ex_def prod_eq_iff)

section \<open>The error branch of the direct fetch\<close>

text \<open>
  C9, as amended. When \<^verbatim>\<open>__lrng_jent_get\<close> ends in its error branch it stores 0 credited
  bits and writes nothing else of its own: if the subsystem is not initialised the caller's
  buffer is exactly what it was, and if the fetch failed the buffer is exactly what
  \<^verbatim>\<open>crypto_rng_get_bytes\<close> left there. The function neither wipes the buffer nor restores
  it.
\<close>

theorem get_impl_error_branch:
  assumes "\<not> lrng_jent_initialized s \<or>
           fst (crypto_rng_get_bytes K (jent s) e (unat (drop_bit 3 requested_bits))) \<noteq> 0"
  shows "snd (snd (lrng_jent_get_impl K s e requested_bits)) = 0 \<and>
         fst (snd (lrng_jent_get_impl K s e requested_bits)) =
           (if lrng_jent_initialized s
            then fst (snd (crypto_rng_get_bytes K (jent s) e (unat (drop_bit 3 requested_bits))))
            else e)"
  using assms by (auto simp: lrng_jent_get_impl_def Let_def split: prod.splits)

text \<open>Not initialised: the buffer is returned as given. Initialised, with the generator
  that fails without writing: the buffer is as given, too.\<close>

theorem get_impl_error_branch_witness:
  "\<not> lrng_jent_initialized state_boot \<and>
   lrng_jent_get_impl (kernel_ex 1) state_boot (replicate 48 7) 384 =
     (state_boot, replicate 48 7, 0) \<and>
   fst (crypto_rng_get_bytes (kernel_ex 2) (jent (state_ready 2)) (replicate 48 7)
          (unat (drop_bit 3 (384 :: u32)))) \<noteq> 0 \<and>
   snd (lrng_jent_get_impl (kernel_ex 2) (state_ready 2) (replicate 48 7) 384) =
     (replicate 48 7, 0)"
  using get_impl_error_branch [of state_boot "kernel_ex 1" "replicate 48 7" 384]
    get_impl_error_branch [of "state_ready 2" "kernel_ex 2" "replicate 48 7" 384]
  by (simp add: state_ready_eval state_boot_def kernel_ex_def lrng_jent_get_impl_def
      prod_eq_iff drop_bit_eq_div)

text \<open>The claim as written fails with a generator that has delivered its first 32-byte
  block when it reports the failure: the call ends in the error branch with 0 credited
  bits, and the first 32 bytes of the caller's buffer are no longer what they were.\<close>

theorem get_impl_error_branch_counterexample:
  "lrng_jent_initialized (state_ready 4) \<and>
   fst (crypto_rng_get_bytes (kernel_ex 4) (jent (state_ready 4)) (replicate 48 7)
          (unat (drop_bit 3 (384 :: u32)))) \<noteq> 0 \<and>
   snd (snd (lrng_jent_get_impl (kernel_ex 4) (state_ready 4) (replicate 48 7) 384)) = 0 \<and>
   fst (snd (lrng_jent_get_impl (kernel_ex 4) (state_ready 4) (replicate 48 7) 384)) =
     replicate 32 165 @ replicate 16 7 \<and>
   fst (snd (lrng_jent_get_impl (kernel_ex 4) (state_ready 4) (replicate 48 7) 384)) \<noteq>
     replicate 48 7"
  by (simp add: state_ready_eval state_boot_def kernel_ex_def lrng_jent_get_impl_def
      drop_bit_eq_div partial_block_differs)

section \<open>Disabling asynchronous collection\<close>

lemma list_all_memzero:
  "list_all (\<lambda>x. all_zero (es_e x) \<and> es_e_bits x = 0) (map memzero_es xs)"
  by (induction xs) (simp_all add: memzero_es_def all_zero_def list_all_iff)

text \<open>
  C2, as amended. When the toggle is written false while asynchronous collection is enabled,
  the call returns 0 with the flag cleared and with every slot's buffer all zero and its
  credited bits zero, whatever the slots held. The slot states are not touched: each slot
  keeps the state it had (\<^verbatim>\<open>lrng_jent_async_fini\<close> wipes \<^verbatim>\<open>lrng_jent_async\<close> only).
\<close>

theorem sysfs_set_disable:
  assumes "lrng_es_jent_async_enabled s"
    and "kstrtobool K (case val of None \<Rightarrow> ''1'' | Some v \<Rightarrow> v) = (0, False)"
  shows "fst (lrng_jent_async_sysfs_set K val s) = 0 \<and>
         \<not> lrng_es_jent_async_enabled (snd (lrng_jent_async_sysfs_set K val s)) \<and>
         length (lrng_jent_async (snd (lrng_jent_async_sysfs_set K val s))) =
           length (lrng_jent_async s) \<and>
         list_all (\<lambda>x. all_zero (es_e x) \<and> es_e_bits x = 0)
           (lrng_jent_async (snd (lrng_jent_async_sysfs_set K val s))) \<and>
         lrng_jent_async_set (snd (lrng_jent_async_sysfs_set K val s)) = lrng_jent_async_set s"
  using assms
  by (simp add: lrng_jent_async_sysfs_set_def lrng_jent_async_fini_def list_all_memzero)

theorem sysfs_set_disable_witness:
  "lrng_es_jent_async_enabled (state_full 1) \<and>
   kstrtobool (kernel_ex 1) ''0'' = (0, False) \<and>
   lrng_jent_async (snd (lrng_jent_async_sysfs_set (kernel_ex 1) (Some ''0'') (state_full 1))) =
     [\<lparr>es_e = replicate 48 0, es_e_bits = 0\<rparr>, \<lparr>es_e = replicate 48 0, es_e_bits = 0\<rparr>,
      \<lparr>es_e = replicate 48 0, es_e_bits = 0\<rparr>, \<lparr>es_e = replicate 48 0, es_e_bits = 0\<rparr>] \<and>
   lrng_jent_async_set (snd (lrng_jent_async_sysfs_set (kernel_ex 1) (Some ''0'') (state_full 1))) =
     [buffer_filled, buffer_filled, buffer_filled, buffer_filled]"
  using sysfs_set_disable [of "state_full 1" "kernel_ex 1" "Some ''0''"]
  by (simp add: state_full_1 kernel_ex_def lrng_jent_async_sysfs_set_def
      lrng_jent_async_fini_def memzero_es_def)

text \<open>The scenario of the specification: the toggle is cleared while slot 3 is filled. The
  call succeeds and clears the flag, and the state of slot 3 is not \<^verbatim>\<open>buffer_empty\<close>.\<close>

theorem sysfs_set_disable_counterexample:
  "lrng_es_jent_async_enabled (state_full 1) \<and>
   lrng_jent_async_set (state_full 1) ! 3 = buffer_filled \<and>
   fst (lrng_jent_async_sysfs_set (kernel_ex 1) (Some ''0'') (state_full 1)) = 0 \<and>
   \<not> lrng_es_jent_async_enabled
       (snd (lrng_jent_async_sysfs_set (kernel_ex 1) (Some ''0'') (state_full 1))) \<and>
   lrng_jent_async_set
       (snd (lrng_jent_async_sysfs_set (kernel_ex 1) (Some ''0'') (state_full 1))) ! 3
     \<noteq> buffer_empty"
  by (simp add: state_full_1 kernel_ex_def lrng_jent_async_sysfs_set_def lrng_jent_async_fini_def)

section \<open>The pool path: an exhausted slot\<close>

text \<open>
  C7, as amended. A pool-path call made while the subsystem is initialised, whose slot is
  not \<^verbatim>\<open>buffer_filled\<close>, advances the cursor, gives the caller exactly what the direct
  path gives for this request, and schedules the filler once. No error is returned.
\<close>

theorem async_get_exhausted:
  assumes "lrng_jent_initialized s"
    and "lrng_es_jent_async_enabled s"
    and "requested_bits = lrng_get_seed_entropy_osr K True"
    and "lrng_jent_async_set s ! slot_at K s 0 \<noteq> buffer_filled"
  shows "lrng_jent_get_check K s eb requested_bits =
           ((fst (lrng_jent_get K s eb requested_bits))
              \<lparr>idx := idx s + 1, work_scheduled := Suc (work_scheduled s)\<rparr>,
            snd (lrng_jent_get K s eb requested_bits))"
  using assms
  by (auto simp: lrng_jent_get_check_def lrng_jent_async_get_def slot_at_def atomic_cmpxchg_def
      lrng_jent_get_def lrng_jent_get_impl_def lrng_jent_entropylevel_def
      lrng_jent_async_monitor_schedule_def Let_def split: prod.splits)

text \<open>Right after initialisation every slot is empty: the first standard request is served
  by the generator and schedules the filler.\<close>

theorem async_get_exhausted_witness:
  "lrng_jent_initialized (state_ready 1) \<and>
   lrng_es_jent_async_enabled (state_ready 1) \<and>
   (384 :: u32) = lrng_get_seed_entropy_osr (kernel_ex 1) True \<and>
   lrng_jent_async_set (state_ready 1) ! slot_at (kernel_ex 1) (state_ready 1) 0 \<noteq> buffer_filled \<and>
   lrng_jent_get_check (kernel_ex 1) (state_ready 1) eb_ex 384 =
     ((state_ready 1)\<lparr>jent := 3, idx := 0, rng_calls := 1, work_scheduled := 1\<rparr>,
      \<lparr>eb_e = replicate 48 1, eb_e_bits = 24\<rparr>)"
  using async_get_exhausted [of "state_ready 1" 384 "kernel_ex 1" eb_ex]
  by (simp add: state_ready_eval state_boot_def kernel_ex_def slot_at_def eb_ex_def
      LRNG_JENT_ENTROPY_BLOCKS_MASK_def lrng_jent_get_def lrng_jent_get_impl_def
      lrng_jent_entropylevel_def drop_bit_eq_div)

text \<open>The claim as written fails before initialisation: with the statics as the C
  initialisers leave them, a standard request takes the pool path, the slot the cursor
  would give is not filled, and the call returns with no work scheduled and the cursor
  where it was.\<close>

theorem async_get_exhausted_counterexample:
  "lrng_es_jent_async_enabled state_boot \<and>
   (384 :: u32) = lrng_get_seed_entropy_osr (kernel_ex 1) True \<and>
   lrng_jent_async_set state_boot ! slot_at (kernel_ex 1) state_boot 0 \<noteq> buffer_filled \<and>
   work_scheduled (fst (lrng_jent_get_check (kernel_ex 1) state_boot eb_ex 384)) =
     work_scheduled state_boot \<and>
   idx (fst (lrng_jent_get_check (kernel_ex 1) state_boot eb_ex 384)) = idx state_boot"
  by (simp add: state_boot_def kernel_ex_def slot_at_def LRNG_JENT_ENTROPY_BLOCKS_MASK_def
      lrng_jent_get_check_def lrng_jent_async_get_def)

section \<open>The pool path: the refill heuristic\<close>

text \<open>
  C8. After a pool-path call that drains slot \<open>s\<close>, the filler has been scheduled once more
  exactly when \<open>s mod (BLOCKS / 4) = 0\<close> and \<open>s \<noteq> 0\<close>; otherwise it has not been scheduled.
\<close>

theorem async_get_refill_heuristic:
  assumes "lrng_jent_initialized s"
    and "lrng_es_jent_async_enabled s"
    and "requested_bits = lrng_get_seed_entropy_osr K True"
    and "lrng_jent_async_set s ! slot_at K s 0 = buffer_filled"
  shows "work_scheduled (fst (lrng_jent_get_check K s eb requested_bits)) =
           (if slot_at K s 0 mod (CONFIG_LRNG_JENT_ENTROPY_BLOCKS K div 4) = 0 \<and> slot_at K s 0 \<noteq> 0
            then Suc (work_scheduled s) else work_scheduled s)"
  using assms
  by (auto simp: lrng_jent_get_check_def lrng_jent_async_get_def slot_at_def atomic_cmpxchg_def
      lrng_jent_async_monitor_schedule_def Let_def split: prod.splits)

text \<open>With 4 blocks, draining slot 0 schedules nothing and draining slot 2 schedules the
  filler. With 8 blocks (a quarter is 2), draining slot 5 schedules nothing and draining
  slot 6 schedules the filler.\<close>

theorem async_get_refill_heuristic_witness:
  "lrng_jent_initialized (state_full 1) \<and> lrng_es_jent_async_enabled (state_full 1) \<and>
   (384 :: u32) = lrng_get_seed_entropy_osr (kernel_ex 1) True \<and>
   slot_at (kernel_ex 1) (state_full 1) 0 = 0 \<and>
   lrng_jent_async_set (state_full 1) ! 0 = buffer_filled \<and>
   work_scheduled (fst (lrng_jent_get_check (kernel_ex 1) (state_full 1) eb_ex 384)) =
     work_scheduled (state_full 1) \<and>
   slot_at (kernel_ex 1) ((state_full 1)\<lparr>idx := 1\<rparr>) 0 = 2 \<and>
   lrng_jent_async_set ((state_full 1)\<lparr>idx := 1\<rparr>) ! 2 = buffer_filled \<and>
   work_scheduled (fst (lrng_jent_get_check (kernel_ex 1) ((state_full 1)\<lparr>idx := 1\<rparr>) eb_ex 384)) =
     Suc (work_scheduled (state_full 1)) \<and>
   slot_at ((kernel_ex 1)\<lparr>CONFIG_LRNG_JENT_ENTROPY_BLOCKS := 8\<rparr>) (state_full8 4) 0 = 5 \<and>
   lrng_jent_async_set (state_full8 4) ! 5 = buffer_filled \<and>
   work_scheduled (fst (lrng_jent_get_check ((kernel_ex 1)\<lparr>CONFIG_LRNG_JENT_ENTROPY_BLOCKS := 8\<rparr>)
                          (state_full8 4) eb_ex 384)) =
     work_scheduled (state_full8 4) \<and>
   slot_at ((kernel_ex 1)\<lparr>CONFIG_LRNG_JENT_ENTROPY_BLOCKS := 8\<rparr>) (state_full8 5) 0 = 6 \<and>
   lrng_jent_async_set (state_full8 5) ! 6 = buffer_filled \<and>
   work_scheduled (fst (lrng_jent_get_check ((kernel_ex 1)\<lparr>CONFIG_LRNG_JENT_ENTROPY_BLOCKS := 8\<rparr>)
                          (state_full8 5) eb_ex 384)) =
     Suc (work_scheduled (state_full8 5))"
  using async_get_refill_heuristic [of "state_full 1" 384 "kernel_ex 1" eb_ex]
    async_get_refill_heuristic [of "(state_full 1)\<lparr>idx := 1\<rparr>" 384 "kernel_ex 1" eb_ex]
    async_get_refill_heuristic [of "state_full8 4" 384
      "(kernel_ex 1)\<lparr>CONFIG_LRNG_JENT_ENTROPY_BLOCKS := 8\<rparr>" eb_ex]
    async_get_refill_heuristic [of "state_full8 5" 384
      "(kernel_ex 1)\<lparr>CONFIG_LRNG_JENT_ENTROPY_BLOCKS := 8\<rparr>" eb_ex]
  by (simp add: state_full_1 state_full8_def kernel_ex_def slot_at_def
      LRNG_JENT_ENTROPY_BLOCKS_MASK_def)

section \<open>The filler: a fetch that fails\<close>

lemma monitor_slot_length:
  "length (lrng_jent_async_set (lrng_jent_async_monitor_slot K r i s)) =
     length (lrng_jent_async_set s)"
  "length (lrng_jent_async (lrng_jent_async_monitor_slot K r i s)) = length (lrng_jent_async s)"
  by (simp_all add: lrng_jent_async_monitor_slot_def atomic_cmpxchg_def lrng_jent_get_impl_def
      Let_def split: prod.splits)

lemma monitor_slot_other:
  assumes "j \<noteq> i"
  shows "lrng_jent_async_set (lrng_jent_async_monitor_slot K r i s) ! j = lrng_jent_async_set s ! j"
    and "lrng_jent_async (lrng_jent_async_monitor_slot K r i s) ! j = lrng_jent_async s ! j"
  using assms
  by (simp_all add: lrng_jent_async_monitor_slot_def atomic_cmpxchg_def lrng_jent_get_impl_def
      Let_def split: prod.splits)

lemma monitor_slot_initialized:
  "lrng_jent_initialized (lrng_jent_async_monitor_slot K r i s) = lrng_jent_initialized s"
  by (simp add: lrng_jent_async_monitor_slot_def atomic_cmpxchg_def lrng_jent_get_impl_def
      Let_def split: prod.splits)

lemma fold_monitor_slot_length:
  "length (lrng_jent_async_set (fold (lrng_jent_async_monitor_slot K r) js s)) =
     length (lrng_jent_async_set s) \<and>
   length (lrng_jent_async (fold (lrng_jent_async_monitor_slot K r) js s)) =
     length (lrng_jent_async s)"
  by (induction js arbitrary: s) (simp_all add: monitor_slot_length)

lemma fold_monitor_slot_initialized:
  "lrng_jent_initialized (fold (lrng_jent_async_monitor_slot K r) js s) = lrng_jent_initialized s"
  by (induction js arbitrary: s) (simp_all add: monitor_slot_initialized)

lemma fold_monitor_slot_other:
  assumes "j \<notin> set js"
  shows "lrng_jent_async_set (fold (lrng_jent_async_monitor_slot K r) js s) ! j =
           lrng_jent_async_set s ! j \<and>
         lrng_jent_async (fold (lrng_jent_async_monitor_slot K r) js s) ! j =
           lrng_jent_async s ! j"
  using assms by (induction js arbitrary: s) (simp_all add: monitor_slot_other)

text \<open>One iteration on a slot it can claim: the slot ends \<^verbatim>\<open>buffer_filled\<close> whatever the
  fetch did, and with zero credited bits if the fetch failed.\<close>

lemma monitor_slot_claimed:
  assumes "i < length (lrng_jent_async_set s)" "i < length (lrng_jent_async s)"
    and "lrng_jent_async_set s ! i = buffer_empty"
  shows "lrng_jent_async_set (lrng_jent_async_monitor_slot K r i s) ! i = buffer_filled"
    and "\<not> lrng_jent_initialized s \<or>
         fst (crypto_rng_get_bytes K (jent s) (es_e (lrng_jent_async s ! i))
                (unat (drop_bit 3 r))) \<noteq> 0
         \<Longrightarrow> es_e_bits (lrng_jent_async (lrng_jent_async_monitor_slot K r i s) ! i) = 0"
  using assms
  by (auto simp: lrng_jent_async_monitor_slot_def atomic_cmpxchg_def lrng_jent_get_impl_def
      Let_def split: prod.splits)

text \<open>The pass, cut at slot \<open>i\<close>: the iterations before it, its own, the iterations after it.\<close>

lemma monitor_split:
  assumes "i < CONFIG_LRNG_JENT_ENTROPY_BLOCKS K"
  shows "lrng_jent_async_monitor K s =
           fold (lrng_jent_async_monitor_slot K (lrng_get_seed_entropy_osr K True))
             [Suc i ..< CONFIG_LRNG_JENT_ENTROPY_BLOCKS K]
             (lrng_jent_async_monitor_slot K (lrng_get_seed_entropy_osr K True) i
                (fold (lrng_jent_async_monitor_slot K (lrng_get_seed_entropy_osr K True))
                   [0 ..< i] s))"
proof -
  have "[0 ..< CONFIG_LRNG_JENT_ENTROPY_BLOCKS K] =
          [0 ..< i] @ i # [Suc i ..< CONFIG_LRNG_JENT_ENTROPY_BLOCKS K]"
  proof -
    obtain k where k: "CONFIG_LRNG_JENT_ENTROPY_BLOCKS K = i + k"
      using assms by (metis less_imp_le_nat le_Suc_ex)
    have "[0 ..< i + k] = [0 ..< i] @ [i ..< i + k]"
      by (rule upt_add_eq_append) simp
    moreover have "[i ..< i + k] = i # [Suc i ..< i + k]"
      using assms k by (simp add: upt_conv_Cons)
    ultimately show ?thesis using k by simp
  qed
  then show ?thesis by (simp add: lrng_jent_async_monitor_def Let_def)
qed

text \<open>
  C1, as amended. In a pass of \<^verbatim>\<open>lrng_jent_async_monitor\<close>, a slot that the pass claims
  (it was \<^verbatim>\<open>buffer_empty\<close>) and whose fetch fails (the subsystem is not initialised, or
  \<^verbatim>\<open>crypto_rng_get_bytes\<close> returns nonzero when the pass reaches the slot) ends the pass
  in state \<^verbatim>\<open>buffer_filled\<close> with zero credited bits. It does not go back to
  \<^verbatim>\<open>buffer_empty\<close>: \<^verbatim>\<open>__lrng_jent_get\<close> returns nothing, and the pass stores
  \<^verbatim>\<open>buffer_filled\<close> after every fetch.
\<close>

theorem monitor_fetch_failure:
  assumes "i < CONFIG_LRNG_JENT_ENTROPY_BLOCKS K"
    and "i < length (lrng_jent_async_set s)" and "i < length (lrng_jent_async s)"
    and "lrng_jent_async_set s ! i = buffer_empty"
    and "\<not> lrng_jent_initialized s \<or>
         fst (crypto_rng_get_bytes K
                (jent (fold (lrng_jent_async_monitor_slot K (lrng_get_seed_entropy_osr K True))
                         [0 ..< i] s))
                (es_e (lrng_jent_async s ! i))
                (unat (drop_bit 3 (lrng_get_seed_entropy_osr K True)))) \<noteq> 0"
  shows "lrng_jent_async_set (lrng_jent_async_monitor K s) ! i = buffer_filled \<and>
         es_e_bits (lrng_jent_async (lrng_jent_async_monitor K s) ! i) = 0"
proof -
  let ?r = "lrng_get_seed_entropy_osr K True"
  let ?si = "fold (lrng_jent_async_monitor_slot K ?r) [0 ..< i] s"
  let ?s1 = "lrng_jent_async_monitor_slot K ?r i ?si"
  have notin: "i \<notin> set [0 ..< i]" "i \<notin> set [Suc i ..< CONFIG_LRNG_JENT_ENTROPY_BLOCKS K]"
    by simp_all
  have pre: "lrng_jent_async_set ?si ! i = buffer_empty"
    "lrng_jent_async ?si ! i = lrng_jent_async s ! i"
    using fold_monitor_slot_other [OF notin(1), of K ?r s] assms(4) by simp_all
  have len: "i < length (lrng_jent_async_set ?si)" "i < length (lrng_jent_async ?si)"
    using fold_monitor_slot_length [of K ?r "[0 ..< i]" s] assms(2,3) by simp_all
  have fail: "\<not> lrng_jent_initialized ?si \<or>
        fst (crypto_rng_get_bytes K (jent ?si) (es_e (lrng_jent_async ?si ! i))
               (unat (drop_bit 3 ?r))) \<noteq> 0"
    using assms(5) pre(2) by (simp add: fold_monitor_slot_initialized)
  have step: "lrng_jent_async_set ?s1 ! i = buffer_filled"
    "es_e_bits (lrng_jent_async ?s1 ! i) = 0"
    using monitor_slot_claimed [OF len pre(1)] fail by blast+
  have "lrng_jent_async_monitor K s =
          fold (lrng_jent_async_monitor_slot K ?r) [Suc i ..< CONFIG_LRNG_JENT_ENTROPY_BLOCKS K] ?s1"
    by (rule monitor_split [OF assms(1)])
  then show ?thesis
    using fold_monitor_slot_other [OF notin(2), of K ?r ?s1] step by simp
qed

text \<open>After initialisation with the generator that fails, the pass leaves slot 0 filled
  with zero credited bits; so does a pass that runs before initialisation, for slot 3.\<close>

theorem monitor_fetch_failure_witness:
  "(0 :: nat) < CONFIG_LRNG_JENT_ENTROPY_BLOCKS (kernel_ex 2) \<and>
   lrng_jent_async_set (state_ready 2) ! 0 = buffer_empty \<and>
   fst (crypto_rng_get_bytes (kernel_ex 2) (jent (state_ready 2))
          (es_e (lrng_jent_async (state_ready 2) ! 0))
          (unat (drop_bit 3 (lrng_get_seed_entropy_osr (kernel_ex 2) True)))) \<noteq> 0 \<and>
   lrng_jent_async_set (lrng_jent_async_monitor (kernel_ex 2) (state_ready 2)) ! 0 = buffer_filled \<and>
   es_e_bits (lrng_jent_async (lrng_jent_async_monitor (kernel_ex 2) (state_ready 2)) ! 0) = 0 \<and>
   \<not> lrng_jent_initialized state_boot \<and>
   lrng_jent_async_set state_boot ! 3 = buffer_empty \<and>
   lrng_jent_async_set (lrng_jent_async_monitor (kernel_ex 1) state_boot) ! 3 = buffer_filled \<and>
   es_e_bits (lrng_jent_async (lrng_jent_async_monitor (kernel_ex 1) state_boot) ! 3) = 0"
  using monitor_fetch_failure [of 0 "kernel_ex 2" "state_ready 2"]
    monitor_fetch_failure [of 3 "kernel_ex 1" state_boot]
  by (simp add: state_ready_eval state_boot_def kernel_ex_def drop_bit_eq_div)

text \<open>The claim as written fails after initialisation with the generator that fails: the
  pass claims slot 0, the fetch returns an error, and the slot is \<^verbatim>\<open>buffer_filled\<close>, not
  \<^verbatim>\<open>buffer_empty\<close>, when the pass ends.\<close>

theorem monitor_fetch_failure_counterexample:
  "lrng_jent_initialized (state_ready 2) \<and>
   lrng_jent_async_set (state_ready 2) ! 0 = buffer_empty \<and>
   fst (crypto_rng_get_bytes (kernel_ex 2) (jent (state_ready 2))
          (es_e (lrng_jent_async (state_ready 2) ! 0))
          (unat (drop_bit 3 (lrng_get_seed_entropy_osr (kernel_ex 2) True)))) \<noteq> 0 \<and>
   lrng_jent_async_set (lrng_jent_async_monitor (kernel_ex 2) (state_ready 2)) ! 0 = buffer_filled \<and>
   lrng_jent_async_set (lrng_jent_async_monitor (kernel_ex 2) (state_ready 2)) ! 0 \<noteq> buffer_empty"
  apply (simp only: state_full_def [symmetric])
  apply (simp add: state_full_2 state_ready_eval state_boot_def kernel_ex_def drop_bit_eq_div)
  done

section \<open>The pool path: draining a full pool\<close>

subsection \<open>The cursor and the mask\<close>

text \<open>A positive number that shares no bit with its predecessor is a power of two: the
  first \<^verbatim>\<open>BUILD_BUG_ON\<close> does what its comment says.\<close>

lemma and_double_pred: fixes k :: nat assumes "0 < k"
  shows "(2 * k) AND (2 * (k - 1) + 1) = 2 * (k AND (k - 1))"
  by (subst and_rec) simp

lemma and_succ_double: fixes k :: nat shows "(2 * k + 1) AND (2 * k) = 2 * k"
  by (subst and_rec) simp

lemma and_pred_zero_pow2:
  fixes n :: nat
  assumes "0 < n" "n AND (n - 1) = 0"
  shows "\<exists>m. n = 2 ^ m"
  using assms
proof (induction n rule: less_induct)
  case (less n)
  show ?case
  proof (cases "even n")
    case True
    then obtain k where k: "n = 2 * k" by (auto elim: evenE)
    with less.prems have kpos: "0 < k" by simp
    have "n - 1 = 2 * (k - 1) + 1" using k kpos by simp
    then have "n AND (n - 1) = 2 * (k AND (k - 1))"
      using k and_double_pred [OF kpos] by metis
    with less.prems have "k AND (k - 1) = 0" by simp
    moreover have "k < n" using k kpos by simp
    ultimately obtain m where "k = 2 ^ m" using less.IH kpos by blast
    then have "n = 2 ^ Suc m" using k by simp
    then show ?thesis by blast
  next
    case False
    then obtain k where k: "n = 2 * k + 1" by (auto elim: oddE)
    then have "n - 1 = 2 * k" by simp
    then have "n AND (n - 1) = 2 * k"
      using k and_succ_double [of k] by metis
    with less.prems have "k = 0" by simp
    then have "n = 2 ^ 0" using k by simp
    then show ?thesis by blast
  qed
qed

lemma unat_and_mask_pow2:
  fixes w :: "32 word"
  shows "unat (w AND (word_of_nat (2 ^ m) - 1)) = unat w mod 2 ^ m"
proof -
  have "(word_of_nat (2 ^ m) - 1 :: 32 word) = mask m"
    by (simp add: mask_eq_decr_exp)
  then have "unat (w AND (word_of_nat (2 ^ m) - 1)) = unat (take_bit m w)"
    by (simp only: take_bit_eq_mask)
  also have "\<dots> = take_bit m (unat w)"
    by (rule unsigned_take_bit_eq)
  also have "\<dots> = unat w mod 2 ^ m"
    by (rule take_bit_eq_mod)
  finally show ?thesis .
qed

lemma unat_add_mod_pow2:
  fixes w :: "32 word"
  assumes "m \<le> 32"
  shows "unat (w + word_of_nat j) mod 2 ^ m = (unat w + j) mod 2 ^ m"
proof -
  have d: "(2::nat) ^ m dvd 2 ^ 32" using assms by (rule le_imp_power_dvd)
  have "unat (w + word_of_nat j) = (unat w + unat (word_of_nat j :: 32 word)) mod 2 ^ 32"
    by (simp add: unat_word_ariths)
  also have "\<dots> mod 2 ^ m = (unat w + unat (word_of_nat j :: 32 word)) mod 2 ^ m"
    using d by (simp add: mod_mod_cancel)
  also have "\<dots> = (unat w + (j mod 2 ^ 32)) mod 2 ^ m"
    by (simp add: unat_of_nat)
  also have "\<dots> = (unat w + j) mod 2 ^ m"
    using d by (metis mod_add_right_eq mod_mod_cancel)
  finally show ?thesis .
qed

lemma mod_add_distinct:
  fixes a B :: nat
  assumes "i < j" "j < B"
  shows "(a + i) mod B \<noteq> (a + j) mod B"
proof
  assume "(a + i) mod B = (a + j) mod B"
  then have "(a + j) mod B = (a + i) mod B" by simp
  then have "B dvd (a + j) - (a + i)"
    using assms by (simp add: mod_eq_dvd_iff_nat)
  then have "B dvd j - i" using assms by simp
  moreover have "0 < j - i" "j - i < B" using assms by simp_all
  ultimately show False by (meson nat_dvd_not_less)
qed

lemma build_checks_pow2:
  assumes "build_checks K"
  shows "\<exists>m. CONFIG_LRNG_JENT_ENTROPY_BLOCKS K = 2 ^ m \<and> m \<le> 32"
proof -
  from assms have pos: "0 < CONFIG_LRNG_JENT_ENTROPY_BLOCKS K"
    and z: "CONFIG_LRNG_JENT_ENTROPY_BLOCKS K AND (CONFIG_LRNG_JENT_ENTROPY_BLOCKS K - 1) = 0"
    and lt: "CONFIG_LRNG_JENT_ENTROPY_BLOCKS K < 2 ^ 31"
    by (simp_all add: build_checks_def)
  from and_pred_zero_pow2 [OF pos z] obtain m where m: "CONFIG_LRNG_JENT_ENTROPY_BLOCKS K = 2 ^ m"
    by blast
  with lt have "(2::nat) ^ m < 2 ^ 31" by simp
  then have "m < 31" by (simp only: power_strict_increasing_iff) 
  with m show ?thesis by auto
qed

lemma slot_at_mod:
  assumes "build_checks K"
  shows "slot_at K s j = (unat (idx s + 1) + j) mod CONFIG_LRNG_JENT_ENTROPY_BLOCKS K"
proof -
  from build_checks_pow2 [OF assms] obtain m
    where m: "CONFIG_LRNG_JENT_ENTROPY_BLOCKS K = 2 ^ m" "m \<le> 32" by blast
  have "slot_at K s j = unat (idx s + 1 + word_of_nat j) mod 2 ^ m"
    unfolding slot_at_def LRNG_JENT_ENTROPY_BLOCKS_MASK_def m(1) by (rule unat_and_mask_pow2)
  also have "\<dots> = (unat (idx s + 1) + j) mod 2 ^ m"
    by (rule unat_add_mod_pow2 [OF m(2)])
  finally show ?thesis by (simp add: m(1))
qed

lemma slot_at_less:
  assumes "build_checks K"
  shows "slot_at K s j < CONFIG_LRNG_JENT_ENTROPY_BLOCKS K"
  using assms by (simp add: slot_at_mod build_checks_def)

lemma slot_at_distinct:
  assumes "build_checks K" "i < j" "j < CONFIG_LRNG_JENT_ENTROPY_BLOCKS K"
  shows "slot_at K s i \<noteq> slot_at K s j"
  using assms by (simp add: slot_at_mod mod_add_distinct)

lemma slot_at_next:
  assumes "idx s1 = idx s + 1"
  shows "slot_at K s1 j = slot_at K s (Suc j)"
  using assms by (simp add: slot_at_def algebra_simps)

lemma slot_at_order:
  assumes "build_checks K"
  shows "slot_at K s j = (slot_at K s 0 + j) mod CONFIG_LRNG_JENT_ENTROPY_BLOCKS K"
  using assms by (simp add: slot_at_mod mod_add_left_eq)

subsection \<open>One drain, and a run of drains\<close>

lemma drain_step:
  assumes "lrng_jent_initialized s" and "lrng_es_jent_async_enabled s"
    and "requested_bits = lrng_get_seed_entropy_osr K True"
    and "lrng_jent_async_set s ! slot_at K s 0 = buffer_filled"
  shows "snd (lrng_jent_get_check K s eb requested_bits) =
           eb\<lparr>eb_e := memcpy (eb_e eb) (es_e (lrng_jent_async s ! slot_at K s 0))
                         (LRNG_DRNG_INIT_SEED_SIZE_BYTES K),
              eb_e_bits := es_e_bits (lrng_jent_async s ! slot_at K s 0)\<rparr>"
    and "idx (fst (lrng_jent_get_check K s eb requested_bits)) = idx s + 1"
    and "lrng_jent_async (fst (lrng_jent_get_check K s eb requested_bits)) =
           (lrng_jent_async s)[slot_at K s 0 := memzero_es (lrng_jent_async s ! slot_at K s 0)]"
    and "lrng_jent_async_set (fst (lrng_jent_get_check K s eb requested_bits)) =
           (lrng_jent_async_set s)[slot_at K s 0 := buffer_empty]"
    and "lrng_jent_initialized (fst (lrng_jent_get_check K s eb requested_bits))"
    and "lrng_es_jent_async_enabled (fst (lrng_jent_get_check K s eb requested_bits))"
    and "rng_calls (fst (lrng_jent_get_check K s eb requested_bits)) = rng_calls s"
  using assms
  by (simp_all add: lrng_jent_get_check_def lrng_jent_async_get_def slot_at_def
      atomic_cmpxchg_def lrng_jent_async_monitor_schedule_def Let_def)

lemma get_check_seq_drain:
  assumes bc: "build_checks K"
    and req: "requested_bits = lrng_get_seed_entropy_osr K True"
  shows "length (lrng_jent_async_set s) = CONFIG_LRNG_JENT_ENTROPY_BLOCKS K \<Longrightarrow>
         length (lrng_jent_async s) = CONFIG_LRNG_JENT_ENTROPY_BLOCKS K \<Longrightarrow>
         lrng_jent_initialized s \<Longrightarrow> lrng_es_jent_async_enabled s \<Longrightarrow>
         length ebs \<le> CONFIG_LRNG_JENT_ENTROPY_BLOCKS K \<Longrightarrow>
         \<forall>j<length ebs. lrng_jent_async_set s ! slot_at K s j = buffer_filled \<Longrightarrow>
         length (snd (lrng_jent_get_check_seq K s ebs requested_bits)) = length ebs \<and>
         (\<forall>j<length ebs.
            snd (lrng_jent_get_check_seq K s ebs requested_bits) ! j =
              (ebs ! j)\<lparr>eb_e := memcpy (eb_e (ebs ! j)) (es_e (lrng_jent_async s ! slot_at K s j))
                                     (LRNG_DRNG_INIT_SEED_SIZE_BYTES K),
                         eb_e_bits := es_e_bits (lrng_jent_async s ! slot_at K s j)\<rparr>) \<and>
         (\<forall>j<length ebs.
            lrng_jent_async_set (fst (lrng_jent_get_check_seq K s ebs requested_bits)) ! slot_at K s j
              = buffer_empty \<and>
            lrng_jent_async (fst (lrng_jent_get_check_seq K s ebs requested_bits)) ! slot_at K s j
              = memzero_es (lrng_jent_async s ! slot_at K s j)) \<and>
         (\<forall>i. (\<forall>j<length ebs. i \<noteq> slot_at K s j) \<longrightarrow>
            lrng_jent_async_set (fst (lrng_jent_get_check_seq K s ebs requested_bits)) ! i =
              lrng_jent_async_set s ! i \<and>
            lrng_jent_async (fst (lrng_jent_get_check_seq K s ebs requested_bits)) ! i =
              lrng_jent_async s ! i) \<and>
         idx (fst (lrng_jent_get_check_seq K s ebs requested_bits)) = idx s + word_of_nat (length ebs) \<and>
         rng_calls (fst (lrng_jent_get_check_seq K s ebs requested_bits)) = rng_calls s"
proof (induction ebs arbitrary: s)
  case Nil
  then show ?case by simp
next
  case (Cons eb ebs)
  let ?B = "CONFIG_LRNG_JENT_ENTROPY_BLOCKS K"
  let ?s1 = "fst (lrng_jent_get_check K s eb requested_bits)"
  let ?eb1 = "snd (lrng_jent_get_check K s eb requested_bits)"
  let ?R = "lrng_jent_get_check_seq K ?s1 ebs requested_bits"
  let ?sl = "slot_at K s"
  have filled0: "lrng_jent_async_set s ! ?sl 0 = buffer_filled"
    using Cons.prems(6) by simp
  note st = drain_step [OF Cons.prems(3) Cons.prems(4) req filled0, of eb]
  have sl0: "?sl 0 < ?B" by (rule slot_at_less [OF bc])
  have nxt: "slot_at K ?s1 j = ?sl (Suc j)" for j
    by (rule slot_at_next) (rule st(2))
  have ne: "?sl (Suc j) \<noteq> ?sl 0" if "j < length ebs" for j
  proof -
    have "Suc j < ?B" using that Cons.prems(5) by simp
    from slot_at_distinct [OF bc _ this, of 0 s] show ?thesis by simp
  qed
  have seq: "lrng_jent_get_check_seq K s (eb # ebs) requested_bits = (fst ?R, ?eb1 # snd ?R)"
    by (simp add: split_beta)
  note lrng_jent_get_check_seq.simps(2) [simp del]
  have pre1: "length (lrng_jent_async_set ?s1) = ?B" "length (lrng_jent_async ?s1) = ?B"
    using st(3,4) Cons.prems(1,2) by simp_all
  have pre2: "length ebs \<le> ?B" using Cons.prems(5) by simp
  have pre3: "\<forall>j<length ebs. lrng_jent_async_set ?s1 ! slot_at K ?s1 j = buffer_filled"
  proof (intro allI impI)
    fix j assume j: "j < length ebs"
    have "lrng_jent_async_set ?s1 ! ?sl (Suc j) = lrng_jent_async_set s ! ?sl (Suc j)"
      using ne [OF j] by (simp add: st(4))
    also have "\<dots> = buffer_filled" using Cons.prems(6) j by simp
    finally show "lrng_jent_async_set ?s1 ! slot_at K ?s1 j = buffer_filled"
      by (simp add: nxt)
  qed
  note IH = Cons.IH [OF pre1 st(5) st(6) pre2 pre3]
  have pool1: "lrng_jent_async ?s1 ! ?sl (Suc j) = lrng_jent_async s ! ?sl (Suc j)"
    if "j < length ebs" for j
    using ne [OF that] by (simp add: st(3))
  have A: "length (snd (lrng_jent_get_check_seq K s (eb # ebs) requested_bits)) = length (eb # ebs)"
  proof -
    from IH have "length (snd ?R) = length ebs" by blast
    then show ?thesis by (simp add: seq)
  qed
  have B: "snd (lrng_jent_get_check_seq K s (eb # ebs) requested_bits) ! j =
              ((eb # ebs) ! j)\<lparr>eb_e := memcpy (eb_e ((eb # ebs) ! j)) (es_e (lrng_jent_async s ! ?sl j))
                                     (LRNG_DRNG_INIT_SEED_SIZE_BYTES K),
                         eb_e_bits := es_e_bits (lrng_jent_async s ! ?sl j)\<rparr>"
    if "j < length (eb # ebs)" for j
  proof (cases j)
    case 0
    then show ?thesis by (simp add: seq st(1))
  next
    case (Suc k)
    then have k: "k < length ebs" using that by simp
    with IH have "snd ?R ! k =
        (ebs ! k)\<lparr>eb_e := memcpy (eb_e (ebs ! k)) (es_e (lrng_jent_async ?s1 ! slot_at K ?s1 k))
                                     (LRNG_DRNG_INIT_SEED_SIZE_BYTES K),
                   eb_e_bits := es_e_bits (lrng_jent_async ?s1 ! slot_at K ?s1 k)\<rparr>"
      by blast
    then show ?thesis using Suc pool1 [OF k] by (simp add: seq nxt)
  qed
  have D: "lrng_jent_async_set (fst (lrng_jent_get_check_seq K s (eb # ebs) requested_bits)) ! i =
              lrng_jent_async_set s ! i \<and>
           lrng_jent_async (fst (lrng_jent_get_check_seq K s (eb # ebs) requested_bits)) ! i =
              lrng_jent_async s ! i"
    if i: "\<forall>j<length (eb # ebs). i \<noteq> ?sl j" for i
  proof -
    have i0: "i \<noteq> ?sl 0" using i by auto
    have "\<forall>j<length ebs. i \<noteq> slot_at K ?s1 j" using i by (auto simp: nxt)
    with IH have "lrng_jent_async_set (fst ?R) ! i = lrng_jent_async_set ?s1 ! i \<and>
                  lrng_jent_async (fst ?R) ! i = lrng_jent_async ?s1 ! i"
      by blast
    then show ?thesis using i0 by (simp add: seq st(3,4))
  qed
  have C: "lrng_jent_async_set (fst (lrng_jent_get_check_seq K s (eb # ebs) requested_bits)) ! ?sl j
              = buffer_empty \<and>
           lrng_jent_async (fst (lrng_jent_get_check_seq K s (eb # ebs) requested_bits)) ! ?sl j
              = memzero_es (lrng_jent_async s ! ?sl j)"
    if "j < length (eb # ebs)" for j
  proof (cases j)
    case 0
    have "\<forall>k<length ebs. ?sl 0 \<noteq> slot_at K ?s1 k"
    proof (intro allI impI)
      fix k assume "k < length ebs"
      from ne [OF this] show "?sl 0 \<noteq> slot_at K ?s1 k" by (simp add: nxt)
    qed
    with IH have "lrng_jent_async_set (fst ?R) ! ?sl 0 = lrng_jent_async_set ?s1 ! ?sl 0 \<and>
                  lrng_jent_async (fst ?R) ! ?sl 0 = lrng_jent_async ?s1 ! ?sl 0"
      by blast
    then show ?thesis using 0 sl0 Cons.prems(1,2) by (simp add: seq st(3,4))
  next
    case (Suc k)
    then have k: "k < length ebs" using that by simp
    with IH have "lrng_jent_async_set (fst ?R) ! slot_at K ?s1 k = buffer_empty \<and>
                  lrng_jent_async (fst ?R) ! slot_at K ?s1 k =
                    memzero_es (lrng_jent_async ?s1 ! slot_at K ?s1 k)"
      by blast
    then show ?thesis using Suc pool1 [OF k] by (simp add: seq nxt)
  qed
  have E: "idx (fst (lrng_jent_get_check_seq K s (eb # ebs) requested_bits)) =
             idx s + word_of_nat (length (eb # ebs))"
    "rng_calls (fst (lrng_jent_get_check_seq K s (eb # ebs) requested_bits)) = rng_calls s"
  proof -
    from IH have "idx (fst ?R) = idx ?s1 + word_of_nat (length ebs)"
      "rng_calls (fst ?R) = rng_calls ?s1" by blast+
    then show "idx (fst (lrng_jent_get_check_seq K s (eb # ebs) requested_bits)) =
             idx s + word_of_nat (length (eb # ebs))"
      "rng_calls (fst (lrng_jent_get_check_seq K s (eb # ebs) requested_bits)) = rng_calls s"
      by (simp_all add: seq st(2,7))
  qed
  show ?case using A B C D E by blast
qed

lemma memcpy_whole:
  assumes "length src = n" "length dst = n"
  shows "memcpy dst src n = src"
  using assms by (simp add: memcpy_def)

lemma memzero_es_zero: "all_zero (es_e (memzero_es x))" "es_e_bits (memzero_es x) = 0"
  by (simp_all add: memzero_es_def all_zero_def list_all_iff)


text \<open>The pool of the concrete configuration after one pass of the filler, and four standard
  requests on it.\<close>

lemma full_pool_example:
  "build_checks (kernel_ex 1)" "arrays_declared (kernel_ex 1) (state_full 1)"
  "lrng_jent_initialized (state_full 1)" "lrng_es_jent_async_enabled (state_full 1)"
  "(384 :: u32) = lrng_get_seed_entropy_osr (kernel_ex 1) True"
  "list_all (\<lambda>st. st = buffer_filled) (lrng_jent_async_set (state_full 1))"
  "length [eb_ex, eb_ex, eb_ex, eb_ex] \<le> CONFIG_LRNG_JENT_ENTROPY_BLOCKS (kernel_ex 1)"
  "list_all (\<lambda>eb. length (eb_e eb) = LRNG_DRNG_INIT_SEED_SIZE_BYTES (kernel_ex 1))
     [eb_ex, eb_ex, eb_ex, eb_ex]"
  by (simp_all add: state_full_1 kernel_ex_def eb_ex_def build_checks_def arrays_declared_def)

lemma drain_four_eval:
  "lrng_jent_get_check_seq (kernel_ex 1) (state_full 1) [eb_ex, eb_ex, eb_ex, eb_ex] 384 =
    (\<lparr>jent_entropy = 16, lrng_jent_initialized = True, jent = 9,
      lrng_jent_async =
        [\<lparr>es_e = replicate 48 0, es_e_bits = 0\<rparr>, \<lparr>es_e = replicate 48 0, es_e_bits = 0\<rparr>,
         \<lparr>es_e = replicate 48 0, es_e_bits = 0\<rparr>, \<lparr>es_e = replicate 48 0, es_e_bits = 0\<rparr>],
      lrng_jent_async_set = [buffer_empty, buffer_empty, buffer_empty, buffer_empty],
      lrng_es_jent_async_enabled = True, idx = 3, rng_calls = 4, work_scheduled = 3,
      fully_seeded_forced = 1\<rparr>,
     [\<lparr>eb_e = replicate 48 1, eb_e_bits = 24\<rparr>, \<lparr>eb_e = replicate 48 3, eb_e_bits = 24\<rparr>,
      \<lparr>eb_e = replicate 48 5, eb_e_bits = 24\<rparr>, \<lparr>eb_e = replicate 48 7, eb_e_bits = 24\<rparr>])"
  by (simp add: state_full_1 kernel_ex_def eb_ex_def
      lrng_jent_get_check_def lrng_jent_async_get_def atomic_cmpxchg_def memcpy_def memzero_es_def
      LRNG_JENT_ENTROPY_BLOCKS_MASK_def lrng_jent_async_monitor_schedule_def Let_def
      list_update_Cons_numeral)


text \<open>Once the subsystem is initialised, a pool-path call moves the cursor by one, whether
  it finds its slot filled or not.\<close>

lemma async_get_cursor:
  assumes "lrng_jent_initialized s"
  shows "idx (fst (lrng_jent_async_get K s eb r)) = idx s + 1"
  using assms
  by (auto simp: lrng_jent_async_get_def atomic_cmpxchg_def lrng_jent_get_def
      lrng_jent_get_impl_def lrng_jent_async_monitor_schedule_def Let_def split: prod.splits)

text \<open>
  C4, as amended. Every pool-path call made while the subsystem is initialised advances the
  cursor atomically and exactly once: by the one \<^verbatim>\<open>atomic_inc_return\<close>, a single step
  here as in the source. So a run of at most \<open>BLOCKS\<close> such
  calls on a pool whose slots are all filled returns, call by call, the buffer and the
  credited bits of the slots \<open>(c + j) mod BLOCKS\<close> for \<open>j = 0, 1, \<dots>\<close>, where \<open>c\<close> is the
  slot of the first call; these slots are pairwise distinct; each of them is left
  \<^verbatim>\<open>buffer_empty\<close> with an all-zero buffer and zero credited bits; the cursor has moved by
  the number of calls; and the generator has not been called. Each call is one step of the
  model.
\<close>

theorem pool_drain_in_cursor_order:
  assumes bc: "build_checks K" and ad: "arrays_declared K s"
    and init: "lrng_jent_initialized s" and en: "lrng_es_jent_async_enabled s"
    and req: "requested_bits = lrng_get_seed_entropy_osr K True"
    and full: "list_all (\<lambda>st. st = buffer_filled) (lrng_jent_async_set s)"
    and len: "length ebs \<le> CONFIG_LRNG_JENT_ENTROPY_BLOCKS K"
    and bufs: "list_all (\<lambda>eb. length (eb_e eb) = LRNG_DRNG_INIT_SEED_SIZE_BYTES K) ebs"
  shows "idx (fst (lrng_jent_get_check K s eb requested_bits)) = idx s + 1 \<and>
         length (snd (lrng_jent_get_check_seq K s ebs requested_bits)) = length ebs \<and>
         (\<forall>j<length ebs.
            slot_at K s j = (slot_at K s 0 + j) mod CONFIG_LRNG_JENT_ENTROPY_BLOCKS K \<and>
            (\<forall>i<j. slot_at K s i \<noteq> slot_at K s j) \<and>
            eb_e (snd (lrng_jent_get_check_seq K s ebs requested_bits) ! j) =
              es_e (lrng_jent_async s ! slot_at K s j) \<and>
            eb_e_bits (snd (lrng_jent_get_check_seq K s ebs requested_bits) ! j) =
              es_e_bits (lrng_jent_async s ! slot_at K s j) \<and>
            lrng_jent_async_set (fst (lrng_jent_get_check_seq K s ebs requested_bits)) ! slot_at K s j =
              buffer_empty \<and>
            all_zero (es_e (lrng_jent_async (fst (lrng_jent_get_check_seq K s ebs requested_bits)) !
                              slot_at K s j)) \<and>
            es_e_bits (lrng_jent_async (fst (lrng_jent_get_check_seq K s ebs requested_bits)) !
                         slot_at K s j) = 0) \<and>
         idx (fst (lrng_jent_get_check_seq K s ebs requested_bits)) = idx s + word_of_nat (length ebs) \<and>
         rng_calls (fst (lrng_jent_get_check_seq K s ebs requested_bits)) = rng_calls s"
proof -
  let ?B = "CONFIG_LRNG_JENT_ENTROPY_BLOCKS K"
  let ?R = "lrng_jent_get_check_seq K s ebs requested_bits"
  from ad have l1: "length (lrng_jent_async_set s) = ?B" and l2: "length (lrng_jent_async s) = ?B"
    and l3: "list_all (\<lambda>x. length (es_e x) = LRNG_DRNG_INIT_SEED_SIZE_BYTES K) (lrng_jent_async s)"
    by (simp_all add: arrays_declared_def)
  have filled: "\<forall>j<length ebs. lrng_jent_async_set s ! slot_at K s j = buffer_filled"
    using full l1 slot_at_less [OF bc] by (simp add: list_all_length)
  note D = get_check_seq_drain [OF bc req l1 l2 init en len filled]
  have per: "slot_at K s j = (slot_at K s 0 + j) mod ?B \<and>
            (\<forall>i<j. slot_at K s i \<noteq> slot_at K s j) \<and>
            eb_e (snd ?R ! j) = es_e (lrng_jent_async s ! slot_at K s j) \<and>
            eb_e_bits (snd ?R ! j) = es_e_bits (lrng_jent_async s ! slot_at K s j) \<and>
            lrng_jent_async_set (fst ?R) ! slot_at K s j = buffer_empty \<and>
            all_zero (es_e (lrng_jent_async (fst ?R) ! slot_at K s j)) \<and>
            es_e_bits (lrng_jent_async (fst ?R) ! slot_at K s j) = 0"
    if j: "j < length ebs" for j
  proof -
    have jB: "j < ?B" using j len by simp
    have order: "slot_at K s j = (slot_at K s 0 + j) mod ?B"
      by (rule slot_at_order [OF bc])
    have dist: "\<forall>i<j. slot_at K s i \<noteq> slot_at K s j"
      using slot_at_distinct [OF bc _ jB] by blast
    have srclen: "length (es_e (lrng_jent_async s ! slot_at K s j)) = LRNG_DRNG_INIT_SEED_SIZE_BYTES K"
      using l3 l2 slot_at_less [OF bc, of s j] by (simp add: list_all_length)
    have dstlen: "length (eb_e (ebs ! j)) = LRNG_DRNG_INIT_SEED_SIZE_BYTES K"
      using bufs j by (simp add: list_all_length)
    from D j have out: "snd ?R ! j =
        (ebs ! j)\<lparr>eb_e := memcpy (eb_e (ebs ! j)) (es_e (lrng_jent_async s ! slot_at K s j))
                               (LRNG_DRNG_INIT_SEED_SIZE_BYTES K),
                   eb_e_bits := es_e_bits (lrng_jent_async s ! slot_at K s j)\<rparr>"
      by blast
    from D j have post: "lrng_jent_async_set (fst ?R) ! slot_at K s j = buffer_empty"
      "lrng_jent_async (fst ?R) ! slot_at K s j = memzero_es (lrng_jent_async s ! slot_at K s j)"
      by blast+
    have outs: "eb_e (snd ?R ! j) = es_e (lrng_jent_async s ! slot_at K s j)"
      "eb_e_bits (snd ?R ! j) = es_e_bits (lrng_jent_async s ! slot_at K s j)"
      by (simp_all add: out memcpy_whole [OF srclen dstlen])
    have wiped: "all_zero (es_e (lrng_jent_async (fst ?R) ! slot_at K s j))"
      "es_e_bits (lrng_jent_async (fst ?R) ! slot_at K s j) = 0"
      by (simp_all add: post(2) memzero_es_zero)
    show ?thesis
      using order dist outs post(1) wiped by blast
  qed
  from D have "length (snd ?R) = length ebs"
    "idx (fst ?R) = idx s + word_of_nat (length ebs)" "rng_calls (fst ?R) = rng_calls s"
    by blast+
  moreover have "idx (fst (lrng_jent_get_check K s eb requested_bits)) = idx s + 1"
    using init en req by (simp add: lrng_jent_get_check_def async_get_cursor)
  ultimately show ?thesis using per by blast
qed


theorem pool_drain_in_cursor_order_witness:
  "build_checks (kernel_ex 1) \<and> arrays_declared (kernel_ex 1) (state_full 1) \<and>
   lrng_jent_initialized (state_full 1) \<and> lrng_es_jent_async_enabled (state_full 1) \<and>
   (384 :: u32) = lrng_get_seed_entropy_osr (kernel_ex 1) True \<and>
   list_all (\<lambda>st. st = buffer_filled) (lrng_jent_async_set (state_full 1)) \<and>
   length [eb_ex, eb_ex, eb_ex, eb_ex] \<le> CONFIG_LRNG_JENT_ENTROPY_BLOCKS (kernel_ex 1) \<and>
   list_all (\<lambda>eb. length (eb_e eb) = LRNG_DRNG_INIT_SEED_SIZE_BYTES (kernel_ex 1))
     [eb_ex, eb_ex, eb_ex, eb_ex] \<and>
   snd (lrng_jent_get_check_seq (kernel_ex 1) (state_full 1) [eb_ex, eb_ex, eb_ex, eb_ex] 384) =
     [\<lparr>eb_e = replicate 48 1, eb_e_bits = 24\<rparr>, \<lparr>eb_e = replicate 48 3, eb_e_bits = 24\<rparr>,
      \<lparr>eb_e = replicate 48 5, eb_e_bits = 24\<rparr>, \<lparr>eb_e = replicate 48 7, eb_e_bits = 24\<rparr>] \<and>
   lrng_jent_async_set
     (fst (lrng_jent_get_check_seq (kernel_ex 1) (state_full 1) [eb_ex, eb_ex, eb_ex, eb_ex] 384)) =
     [buffer_empty, buffer_empty, buffer_empty, buffer_empty] \<and>
   lrng_jent_async
     (fst (lrng_jent_get_check_seq (kernel_ex 1) (state_full 1) [eb_ex, eb_ex, eb_ex, eb_ex] 384)) =
     [\<lparr>es_e = replicate 48 0, es_e_bits = 0\<rparr>, \<lparr>es_e = replicate 48 0, es_e_bits = 0\<rparr>,
      \<lparr>es_e = replicate 48 0, es_e_bits = 0\<rparr>, \<lparr>es_e = replicate 48 0, es_e_bits = 0\<rparr>] \<and>
   idx (fst (lrng_jent_get_check_seq (kernel_ex 1) (state_full 1) [eb_ex, eb_ex, eb_ex, eb_ex] 384)) = 3 \<and>
   rng_calls (fst (lrng_jent_get_check_seq (kernel_ex 1) (state_full 1) [eb_ex, eb_ex, eb_ex, eb_ex] 384)) =
     rng_calls (state_full 1)"
proof -
  let ?R = "lrng_jent_get_check_seq (kernel_ex 1) (state_full 1) [eb_ex, eb_ex, eb_ex, eb_ex] 384"
  note T = pool_drain_in_cursor_order [OF full_pool_example]
  from T have calls: "rng_calls (fst ?R) = rng_calls (state_full 1)"
    by blast
  have outs: "snd ?R =
     [\<lparr>eb_e = replicate 48 1, eb_e_bits = 24\<rparr>, \<lparr>eb_e = replicate 48 3, eb_e_bits = 24\<rparr>,
      \<lparr>eb_e = replicate 48 5, eb_e_bits = 24\<rparr>, \<lparr>eb_e = replicate 48 7, eb_e_bits = 24\<rparr>]"
    and states: "lrng_jent_async_set (fst ?R) =
     [buffer_empty, buffer_empty, buffer_empty, buffer_empty]"
    and bufs: "lrng_jent_async (fst ?R) =
     [\<lparr>es_e = replicate 48 0, es_e_bits = 0\<rparr>, \<lparr>es_e = replicate 48 0, es_e_bits = 0\<rparr>,
      \<lparr>es_e = replicate 48 0, es_e_bits = 0\<rparr>, \<lparr>es_e = replicate 48 0, es_e_bits = 0\<rparr>]"
    and cursor: "idx (fst ?R) = 3"
    unfolding drain_four_eval by simp_all
  show ?thesis
    by (intro conjI full_pool_example outs states bufs cursor calls)
qed


text \<open>The claim as written fails before initialisation: with the statics as the C
  initialisers leave them, a standard request takes the pool path and returns at the
  initialisation test, and the cursor has not moved.\<close>

theorem pool_drain_in_cursor_order_counterexample:
  "\<not> lrng_jent_initialized state_boot \<and>
   lrng_es_jent_async_enabled state_boot \<and>
   (384 :: u32) = lrng_get_seed_entropy_osr (kernel_ex 1) True \<and>
   lrng_jent_get_check (kernel_ex 1) state_boot eb_ex 384 =
     lrng_jent_async_get (kernel_ex 1) state_boot eb_ex 384 \<and>
   idx (fst (lrng_jent_get_check (kernel_ex 1) state_boot eb_ex 384)) = idx state_boot \<and>
   idx (fst (lrng_jent_get_check (kernel_ex 1) state_boot eb_ex 384)) \<noteq> idx state_boot + 1"
  by (simp add: state_boot_def kernel_ex_def lrng_jent_get_check_def lrng_jent_async_get_def)

end
